theory Spec2Isabelle
  imports Main "HOL-Library.Sublist"
begin

section \<open>Workflow editor: data model\<close>

text \<open>
  The data of \<^verbatim>\<open>WorkflowEditor.tsx\<close>. The interfaces \<^verbatim>\<open>WorkflowStep\<close> and
  \<^verbatim>\<open>WorkflowData\<close> become records; their fields carry the prefix \<open>step_\<close> and
  \<open>wf_\<close>, since both interfaces have fields \<^verbatim>\<open>id\<close>, \<^verbatim>\<open>name\<close> and
  \<^verbatim>\<open>description\<close>. An optional field (\<^verbatim>\<open>description?\<close>, \<^verbatim>\<open>id?\<close>) is an
  \<open>option\<close>. The step type is the union of string literals of the canvas and the
  configuration panel, which has \<^verbatim>\<open>"webhook"\<close> besides the seven of the editor (the
  step library passes it to \<^verbatim>\<open>addStep\<close>).
\<close>

datatype step_type =
  FormStep | EmailStep | DocumentStep | PaymentStep | CalendarStep
  | ConditionStep | DelayStep | WebhookStep

fun step_type_str :: "step_type \<Rightarrow> string" where
  "step_type_str FormStep = ''form''"
| "step_type_str EmailStep = ''email''"
| "step_type_str DocumentStep = ''document''"
| "step_type_str PaymentStep = ''payment''"
| "step_type_str CalendarStep = ''calendar''"
| "step_type_str ConditionStep = ''condition''"
| "step_type_str DelayStep = ''delay''"
| "step_type_str WebhookStep = ''webhook''"

text \<open>A value of \<^verbatim>\<open>config: Record<string, any>\<close>: the panel stores strings, numbers
  and booleans. The record of keys is an association list in insertion order.\<close>

datatype jsval = JStr string | JNum int | JBool bool

type_synonym config = "(string \<times> jsval) list"

record position =
  pos_x :: int
  pos_y :: int

record WorkflowStep =
  step_id :: string
  step_type :: step_type
  step_name :: string
  step_description :: "string option"
  step_config :: config
  step_position :: position

datatype status = Active | Draft

record connection =
  conn_from :: string
  conn_to :: string

record WorkflowData =
  wf_id :: "string option"
  wf_name :: string
  wf_description :: string
  wf_status :: status
  wf_steps :: "WorkflowStep list"
  wf_connections :: "connection list"

definition mockWorkflowData :: WorkflowData where
  "mockWorkflowData =
    \<lparr> wf_id = Some ''1'',
      wf_name = ''Web Design Onboarding'',
      wf_description = ''Complete client intake for web design projects'',
      wf_status = Active,
      wf_steps =
        [ \<lparr> step_id = ''step-1'', step_type = FormStep,
            step_name = ''Project Intake Form'',
            step_description = Some ''Collect initial project requirements'',
            step_config = [(''formId'', JStr ''intake-form-1'')],
            step_position = \<lparr> pos_x = 100, pos_y = 100 \<rparr> \<rparr>,
          \<lparr> step_id = ''step-2'', step_type = EmailStep,
            step_name = ''Welcome Email'',
            step_description = Some ''Send welcome email to client'',
            step_config = [(''templateId'', JStr ''welcome-template'')],
            step_position = \<lparr> pos_x = 300, pos_y = 100 \<rparr> \<rparr>,
          \<lparr> step_id = ''step-3'', step_type = DocumentStep,
            step_name = ''Send Contract'',
            step_description = Some ''Send contract for signature'',
            step_config = [(''documentId'', JStr ''contract-template'')],
            step_position = \<lparr> pos_x = 500, pos_y = 100 \<rparr> \<rparr> ],
      wf_connections =
        [ \<lparr> conn_from = ''step-1'', conn_to = ''step-2'' \<rparr>,
          \<lparr> conn_from = ''step-2'', conn_to = ''step-3'' \<rparr> ] \<rparr>"

section \<open>Workflow editor: state and handlers\<close>

text \<open>
  The component's four \<^verbatim>\<open>useState\<close> cells, and the two effects a handler has
  outside them: the callbacks handed to \<^verbatim>\<open>setTimeout\<close> (each closes over the
  workflow value it logs) and the lines written by \<^verbatim>\<open>console.log\<close>. The source
  has no other effect: it imports no client and calls neither \<^verbatim>\<open>fetch\<close> nor a
  storage interface.
\<close>

datatype mode = Create | Edit

datatype timer = SaveTimer WorkflowData | PublishTimer WorkflowData

datatype log_line = Saving WorkflowData | Publishing WorkflowData

record editor =
  workflow :: WorkflowData
  selectedStep :: "string option"
  isLoading :: bool
  showStepLibrary :: bool
  timers :: "timer list"
  console :: "log_line list"

definition initial_editor :: editor where
  "initial_editor =
    \<lparr> workflow = \<lparr> wf_id = None, wf_name = [], wf_description = [],
                    wf_status = Draft, wf_steps = [], wf_connections = [] \<rparr>,
      selectedStep = None, isLoading = False, showStepLibrary = False,
      timers = [], console = [] \<rparr>"

text \<open>JavaScript truthiness of the optional prop \<^verbatim>\<open>workflowId?: string\<close>:
  \<^verbatim>\<open>undefined\<close> and the empty string are falsy.\<close>

fun truthy :: "string option \<Rightarrow> bool" where
  "truthy None = False"
| "truthy (Some s) = (s \<noteq> [])"

text \<open>The body of the \<^verbatim>\<open>useEffect\<close>, run at mount (and when a prop changes).\<close>

definition useEffect_load :: "mode \<Rightarrow> string option \<Rightarrow> editor \<Rightarrow> editor" where
  "useEffect_load m workflowId s =
     (if m = Edit \<and> truthy workflowId then s\<lparr>workflow := mockWorkflowData\<rparr> else s)"

text \<open>The editor as it stands after mounting.\<close>

definition mount :: "mode \<Rightarrow> string option \<Rightarrow> editor" where
  "mount m workflowId = useEffect_load m workflowId initial_editor"

definition handleSave :: "editor \<Rightarrow> editor" where
  "handleSave s =
     s\<lparr>isLoading := True, timers := timers s @ [SaveTimer (workflow s)]\<rparr>"

definition handlePublish :: "editor \<Rightarrow> editor" where
  "handlePublish s =
     (let updatedWorkflow = (workflow s)\<lparr>wf_status := Active\<rparr>
      in s\<lparr>isLoading := True, workflow := updatedWorkflow,
           timers := timers s @ [PublishTimer updatedWorkflow]\<rparr>)"

text \<open>What a \<^verbatim>\<open>setTimeout\<close> callback does when it runs.\<close>

fun run_timer :: "timer \<Rightarrow> editor \<Rightarrow> editor" where
  "run_timer (SaveTimer w) s = s\<lparr>console := console s @ [Saving w], isLoading := False\<rparr>"
| "run_timer (PublishTimer w) s =
     s\<lparr>console := console s @ [Publishing w], isLoading := False\<rparr>"

text \<open>The event loop runs the oldest pending callback (all delays are 1000 ms).\<close>

definition fire_timer :: "editor \<Rightarrow> editor" where
  "fire_timer s =
     (case timers s of [] \<Rightarrow> s | t # ts \<Rightarrow> run_timer t (s\<lparr>timers := ts\<rparr>))"

fun fire_all :: "nat \<Rightarrow> editor \<Rightarrow> editor" where
  "fire_all 0 s = s"
| "fire_all (Suc n) s = fire_all n (fire_timer s)"

text \<open>\<^verbatim>\<open>Date.now()\<close> in a template literal: the decimal digits of the number.\<close>

definition digit_char :: "nat \<Rightarrow> char" where
  "digit_char d = char_of (48 + d)"

fun show_nat :: "nat \<Rightarrow> string" where
  "show_nat n = (if n < 10 then [digit_char n] else show_nat (n div 10) @ [digit_char (n mod 10)])"

declare show_nat.simps [simp del]

definition show_int :: "int \<Rightarrow> string" where
  "show_int i = (if i < 0 then CHR ''-'' # show_nat (nat (- i)) else show_nat (nat i))"

text \<open>\<^verbatim>\<open>addStep\<close>; the clock reading \<^verbatim>\<open>Date.now()\<close> is the parameter \<open>now\<close>.\<close>

definition addStep :: "int \<Rightarrow> step_type \<Rightarrow> editor \<Rightarrow> editor" where
  "addStep now stepType s =
     (let newStep =
            \<lparr> step_id = ''step-'' @ show_int now,
              step_type = stepType,
              step_name = ''New '' @ step_type_str stepType @ '' step'',
              step_description = None,
              step_config = [],
              step_position =
                \<lparr> pos_x = 200 + int (length (wf_steps (workflow s))) * 50,
                  pos_y = 200 + int (length (wf_steps (workflow s))) * 50 \<rparr> \<rparr>
      in s\<lparr>workflow := (workflow s)\<lparr>wf_steps := wf_steps (workflow s) @ [newStep]\<rparr>,
           selectedStep := Some (step_id newStep),
           showStepLibrary := False\<rparr>)"

text \<open>\<^verbatim>\<open>Partial<WorkflowStep>\<close>: each field present or absent; the spread
  \<^verbatim>\<open>{ ...step, ...updates }\<close> overwrites the fields that are present.\<close>

record step_updates =
  u_id :: "string option"
  u_type :: "step_type option"
  u_name :: "string option"
  u_description :: "string option"
  u_config :: "config option"
  u_position :: "position option"

definition no_updates :: step_updates where
  "no_updates = \<lparr> u_id = None, u_type = None, u_name = None, u_description = None,
                  u_config = None, u_position = None \<rparr>"

definition spread_updates :: "WorkflowStep \<Rightarrow> step_updates \<Rightarrow> WorkflowStep" where
  "spread_updates step u =
     \<lparr> step_id = (case u_id u of None \<Rightarrow> step_id step | Some v \<Rightarrow> v),
       step_type = (case u_type u of None \<Rightarrow> step_type step | Some v \<Rightarrow> v),
       step_name = (case u_name u of None \<Rightarrow> step_name step | Some v \<Rightarrow> v),
       step_description =
         (case u_description u of None \<Rightarrow> step_description step | Some v \<Rightarrow> Some v),
       step_config = (case u_config u of None \<Rightarrow> step_config step | Some v \<Rightarrow> v),
       step_position = (case u_position u of None \<Rightarrow> step_position step | Some v \<Rightarrow> v) \<rparr>"

definition updateStep :: "string \<Rightarrow> step_updates \<Rightarrow> editor \<Rightarrow> editor" where
  "updateStep stepId updates s =
     s\<lparr>workflow := (workflow s)
        \<lparr>wf_steps :=
           map (\<lambda>step. if step_id step = stepId then spread_updates step updates else step)
               (wf_steps (workflow s))\<rparr>\<rparr>"

definition deleteStep :: "string \<Rightarrow> editor \<Rightarrow> editor" where
  "deleteStep stepId s =
     (let s' = s\<lparr>workflow := (workflow s)
                  \<lparr>wf_steps := filter (\<lambda>step. step_id step \<noteq> stepId) (wf_steps (workflow s)),
                   wf_connections :=
                     filter (\<lambda>conn. conn_from conn \<noteq> stepId \<and> conn_to conn \<noteq> stepId)
                            (wf_connections (workflow s))\<rparr>\<rparr>
      in if selectedStep s = Some stepId then s'\<lparr>selectedStep := None\<rparr> else s')"

definition setSelectedStep :: "string option \<Rightarrow> editor \<Rightarrow> editor" where
  "setSelectedStep v s = s\<lparr>selectedStep := v\<rparr>"

text \<open>\<^verbatim>\<open>selectedStepData\<close>: \<^verbatim>\<open>Array.prototype.find\<close> returns the first match.\<close>

definition selectedStepData :: "editor \<Rightarrow> WorkflowStep option" where
  "selectedStepData s =
     (case selectedStep s of
        None \<Rightarrow> None
      | Some i \<Rightarrow> find (\<lambda>step. step_id step = i) (wf_steps (workflow s)))"

section \<open>Workflow canvas\<close>

text \<open>
  \<^verbatim>\<open>WorkflowCanvas.tsx\<close>. The canvas owns one state cell, \<^verbatim>\<open>draggedStep\<close>, and
  reaches the editor only through the callbacks of its props. A handler is modelled by
  the new value of the cell and the list of callbacks it invokes, in order.
\<close>

datatype canvas_callback =
  OnSelectStep "string option"
  | OnUpdateStep string step_updates
  | OnDeleteStep string

definition handleStepClick :: "string option \<Rightarrow> string \<Rightarrow> canvas_callback list" where
  "handleStepClick selected stepId =
     [OnSelectStep (if selected = Some stepId then None else Some stepId)]"

definition handleDragStart :: "string \<Rightarrow> string option \<Rightarrow> string option \<times> canvas_callback list" where
  "handleDragStart stepId draggedStep = (Some stepId, [])"

definition handleDragEnd :: "string option \<Rightarrow> string option \<times> canvas_callback list" where
  "handleDragEnd draggedStep = (None, [])"

text \<open>The events a step card listens to: \<^verbatim>\<open>onDragStart\<close>, \<^verbatim>\<open>onDragEnd\<close>,
  \<^verbatim>\<open>onClick\<close> of the card, of the settings button and of the trash button.\<close>

datatype drag_event = DragStart string | DragEnd

datatype canvas_event =
  Drag drag_event | CardClick string | SettingsClick string | TrashClick string

fun canvas_handler ::
  "string option \<Rightarrow> canvas_event \<Rightarrow> string option \<Rightarrow> string option \<times> canvas_callback list" where
  "canvas_handler selected (Drag (DragStart stepId)) d = handleDragStart stepId d"
| "canvas_handler selected (Drag DragEnd) d = handleDragEnd d"
| "canvas_handler selected (CardClick stepId) d = (d, handleStepClick selected stepId)"
| "canvas_handler selected (SettingsClick stepId) d = (d, [OnSelectStep (Some stepId)])"
| "canvas_handler selected (TrashClick stepId) d = (d, [OnDeleteStep stepId])"

text \<open>The props the editor passes: \<^verbatim>\<open>onSelectStep={setSelectedStep}\<close>,
  \<^verbatim>\<open>onUpdateStep={updateStep}\<close>, \<^verbatim>\<open>onDeleteStep={deleteStep}\<close>.\<close>

fun canvas_prop :: "canvas_callback \<Rightarrow> editor \<Rightarrow> editor" where
  "canvas_prop (OnSelectStep v) s = setSelectedStep v s"
| "canvas_prop (OnUpdateStep stepId updates) s = updateStep stepId updates s"
| "canvas_prop (OnDeleteStep stepId) s = deleteStep stepId s"

text \<open>One event on the mounted canvas: the editor's state, the canvas's cell and the
  trace of callbacks invoked so far.\<close>

fun canvas_dispatch ::
  "canvas_event \<Rightarrow> editor \<times> string option \<times> canvas_callback list
     \<Rightarrow> editor \<times> string option \<times> canvas_callback list" where
  "canvas_dispatch ev (s, d, tr) =
     (case canvas_handler (selectedStep s) ev d of
        (d', cbs) \<Rightarrow> (fold canvas_prop cbs s, d', tr @ cbs))"

definition canvas_run ::
  "canvas_event list \<Rightarrow> editor \<times> string option \<times> canvas_callback list
     \<Rightarrow> editor \<times> string option \<times> canvas_callback list" where
  "canvas_run evs st = fold canvas_dispatch evs st"

text \<open>The value of \<^verbatim>\<open>draggedStep\<close> that a sequence of drag events leaves.\<close>

fun dragged_after :: "drag_event list \<Rightarrow> string option \<Rightarrow> string option" where
  "dragged_after [] d = d"
| "dragged_after (DragStart stepId # evs) d = dragged_after evs (Some stepId)"
| "dragged_after (DragEnd # evs) d = dragged_after evs None"

section \<open>Step configuration panel\<close>

text \<open>
  \<^verbatim>\<open>StepconfigPanel.tsx\<close>. The panel has no state of its own; each control invokes
  \<^verbatim>\<open>onUpdateStep\<close> or \<^verbatim>\<open>onClose\<close>.
\<close>

datatype panel_callback = OnClose | OnUpdate string step_updates

text \<open>\<^verbatim>\<open>{ ...step.config, [configKey]: value }\<close>: an existing key keeps its place,
  a new key goes last.\<close>

fun config_set :: "config \<Rightarrow> string \<Rightarrow> jsval \<Rightarrow> config" where
  "config_set [] k v = [(k, v)]"
| "config_set ((k', v') # kvs) k v =
     (if k' = k then (k, v) # kvs else (k', v') # config_set kvs k v)"

text \<open>\<^verbatim>\<open>{ [field]: value }\<close>; the panel calls it with the keys \<^verbatim>\<open>"name"\<close> and
  \<^verbatim>\<open>"description"\<close>, the value being the text of an input.\<close>

definition updateStepField :: "WorkflowStep \<Rightarrow> string \<Rightarrow> string \<Rightarrow> panel_callback list" where
  "updateStepField step field v =
     [OnUpdate (step_id step)
        (if field = ''name'' then no_updates\<lparr>u_name := Some v\<rparr>
         else if field = ''description'' then no_updates\<lparr>u_description := Some v\<rparr>
         else if field = ''id'' then no_updates\<lparr>u_id := Some v\<rparr>
         else no_updates)]"

definition updateStepConfig :: "WorkflowStep \<Rightarrow> string \<Rightarrow> jsval \<Rightarrow> panel_callback list" where
  "updateStepConfig step configKey v =
     [OnUpdate (step_id step)
        (no_updates\<lparr>u_config := Some (config_set (step_config step) configKey v)\<rparr>)]"

datatype panel_event =
  CloseX | SaveChanges | Cancel
  | NameChange string | DescriptionChange string | ConfigChange string jsval

fun panel_handler :: "WorkflowStep \<Rightarrow> panel_event \<Rightarrow> panel_callback list" where
  "panel_handler step CloseX = [OnClose]"
| "panel_handler step SaveChanges = [OnClose]"
| "panel_handler step Cancel = [OnClose]"
| "panel_handler step (NameChange v) = updateStepField step ''name'' v"
| "panel_handler step (DescriptionChange v) = updateStepField step ''description'' v"
| "panel_handler step (ConfigChange k v) = updateStepConfig step k v"

text \<open>The props the editor passes: \<^verbatim>\<open>onUpdateStep={updateStep}\<close> and
  \<^verbatim>\<open>onClose={() => setSelectedStep(null)}\<close>.\<close>

fun panel_prop :: "panel_callback \<Rightarrow> editor \<Rightarrow> editor" where
  "panel_prop OnClose s = setSelectedStep None s"
| "panel_prop (OnUpdate stepId updates) s = updateStep stepId updates s"

text \<open>The panel is rendered only while \<^verbatim>\<open>selectedStepData\<close> is defined.\<close>

definition panel_dispatch :: "panel_event \<Rightarrow> editor \<Rightarrow> editor" where
  "panel_dispatch ev s =
     (case selectedStepData s of
        None \<Rightarrow> s
      | Some step \<Rightarrow> fold panel_prop (panel_handler step ev) s)"

section \<open>Connections name existing steps\<close>

definition connections_valid :: "WorkflowData \<Rightarrow> bool" where
  "connections_valid w =
     list_all (\<lambda>c. conn_from c \<in> set (map step_id (wf_steps w))
                  \<and> conn_to c \<in> set (map step_id (wf_steps w)))
              (wf_connections w)"

section \<open>Form builder\<close>

text \<open>
  \<^verbatim>\<open>FormPage.tsx\<close>. The component takes no props; its state is three
  \<^verbatim>\<open>useState\<close> cells (the cell \<^verbatim>\<open>fields\<close> is \<open>form_fields\<close>).
  The fields of \<^verbatim>\<open>FormField\<close> carry the prefix \<open>field_\<close>.
\<close>

datatype field_type =
  TextField | EmailField | PhoneField | TextareaField
  | SelectField | DateField | FileField | NumberField

fun field_type_str :: "field_type \<Rightarrow> string" where
  "field_type_str TextField = ''text''"
| "field_type_str EmailField = ''email''"
| "field_type_str PhoneField = ''phone''"
| "field_type_str TextareaField = ''textarea''"
| "field_type_str SelectField = ''select''"
| "field_type_str DateField = ''date''"
| "field_type_str FileField = ''file''"
| "field_type_str NumberField = ''number''"

record FormField =
  field_id :: string
  field_type :: field_type
  field_label :: string
  field_placeholder :: "string option"
  field_required :: bool
  field_options :: "string list option"

record form_page =
  formTitle :: string
  formDescription :: string
  form_fields :: "FormField list"

text \<open>The initial values handed to \<^verbatim>\<open>useState\<close>.\<close>

definition FormPage_initial :: form_page where
  "FormPage_initial =
     \<lparr> formTitle = [],
       formDescription = [],
       form_fields =
         [ \<lparr> field_id = ''1'', field_type = TextField, field_label = ''Full Name'',
             field_placeholder = Some ''Enter your full name'',
             field_required = True, field_options = None \<rparr>,
           \<lparr> field_id = ''2'', field_type = EmailField, field_label = ''Email Address'',
             field_placeholder = Some ''your@email.com'',
             field_required = True, field_options = None \<rparr> ] \<rparr>"

definition addField :: "int \<Rightarrow> field_type \<Rightarrow> form_page \<Rightarrow> form_page" where
  "addField now t st =
     (let newField =
            \<lparr> field_id = show_int now,
              field_type = t,
              field_label = ''New '' @ field_type_str t @ '' field'',
              field_placeholder = Some [],
              field_required = False,
              field_options =
                (if t = SelectField then Some [''Option 1'', ''Option 2''] else None) \<rparr>
      in st\<lparr>form_fields := form_fields st @ [newField]\<rparr>)"

record field_updates =
  fu_id :: "string option"
  fu_type :: "field_type option"
  fu_label :: "string option"
  fu_placeholder :: "string option"
  fu_required :: "bool option"
  fu_options :: "string list option"

definition no_field_updates :: field_updates where
  "no_field_updates = \<lparr> fu_id = None, fu_type = None, fu_label = None,
                        fu_placeholder = None, fu_required = None, fu_options = None \<rparr>"

definition spread_field :: "FormField \<Rightarrow> field_updates \<Rightarrow> FormField" where
  "spread_field f u =
     \<lparr> field_id = (case fu_id u of None \<Rightarrow> field_id f | Some v \<Rightarrow> v),
       field_type = (case fu_type u of None \<Rightarrow> field_type f | Some v \<Rightarrow> v),
       field_label = (case fu_label u of None \<Rightarrow> field_label f | Some v \<Rightarrow> v),
       field_placeholder =
         (case fu_placeholder u of None \<Rightarrow> field_placeholder f | Some v \<Rightarrow> Some v),
       field_required = (case fu_required u of None \<Rightarrow> field_required f | Some v \<Rightarrow> v),
       field_options = (case fu_options u of None \<Rightarrow> field_options f | Some v \<Rightarrow> Some v) \<rparr>"

definition updateField :: "string \<Rightarrow> field_updates \<Rightarrow> form_page \<Rightarrow> form_page" where
  "updateField i updates st =
     st\<lparr>form_fields := map (\<lambda>field. if field_id field = i then spread_field field updates else field)
                       (form_fields st)\<rparr>"

definition removeField :: "string \<Rightarrow> form_page \<Rightarrow> form_page" where
  "removeField i st = st\<lparr>form_fields := filter (\<lambda>field. field_id field \<noteq> i) (form_fields st)\<rparr>"

subsection \<open>The options textarea of a select field\<close>

definition newline :: char where
  "newline = CHR 0x0A"

text \<open>\<^verbatim>\<open>Array.prototype.join\<close>: the elements with the separator between them.\<close>

fun join :: "string \<Rightarrow> string list \<Rightarrow> string" where
  "join sep [] = []"
| "join sep [x] = x"
| "join sep (x # y # ys) = x @ sep @ join sep (y # ys)"

text \<open>\<^verbatim>\<open>String.prototype.split\<close> with a separator of one character: the pieces
  between the separators, the empty ones too; the empty string gives one empty piece.\<close>

fun split_char :: "char \<Rightarrow> string \<Rightarrow> string list" where
  "split_char sep [] = [[]]"
| "split_char sep (c # cs) =
     (if c = sep then [] # split_char sep cs
      else (case split_char sep cs of
              [] \<Rightarrow> [[c]]
            | p # ps \<Rightarrow> (c # p) # ps))"

text \<open>\<^verbatim>\<open>.filter(Boolean)\<close> on strings: the empty string is the falsy one.\<close>

definition filter_Boolean :: "string list \<Rightarrow> string list" where
  "filter_Boolean xs = filter (\<lambda>x. x \<noteq> []) xs"

text \<open>\<^verbatim>\<open>v || ""\<close> for a string \<open>v\<close>.\<close>

definition or_empty :: "string \<Rightarrow> string" where
  "or_empty v = (if v = [] then [] else v)"

text \<open>\<^verbatim>\<open>value={field.options?.join("\n") || ""}\<close>\<close>

definition textarea_value :: "string list option \<Rightarrow> string" where
  "textarea_value opts =
     (case opts of None \<Rightarrow> [] | Some xs \<Rightarrow> or_empty (join [newline] xs))"

text \<open>\<^verbatim>\<open>e.target.value.split("\n").filter(Boolean)\<close>\<close>

definition parse_options :: "string \<Rightarrow> string list" where
  "parse_options v = filter_Boolean (split_char newline v)"

text \<open>The \<^verbatim>\<open>onChange\<close> of the textarea rendered for \<open>field\<close>.\<close>

definition options_onChange :: "FormField \<Rightarrow> string \<Rightarrow> form_page \<Rightarrow> form_page" where
  "options_onChange field v st =
     updateField (field_id field) (no_field_updates\<lparr>fu_options := Some (parse_options v)\<rparr>) st"

section \<open>Middleware matcher\<close>

text \<open>
  \<^verbatim>\<open>middleware.ts\<close> gives one matcher, the pattern
  \<^verbatim>\<open>/((?!api|_next/static|_next/image|favicon.ico|$).*)\<close>. A matcher is matched against
  the whole request path, with case. The pattern is written here as a syntax tree of the
  regular expression, and matched by a function that returns, for an input, the rest of
  the input after each way of matching a prefix of it.
\<close>

datatype regex =
  Eps | Lit char | AnyChar | EndOfInput
  | Cat regex regex | Alt regex regex | NegLookahead regex | Star regex

text \<open>The dot matches any character but a line terminator; among the 8-bit characters
  these are line feed and carriage return.\<close>

definition line_terminator :: "char \<Rightarrow> bool" where
  "line_terminator c = (c = CHR 0x0A \<or> c = CHR 0x0D)"

fun rests :: "regex \<Rightarrow> string \<Rightarrow> string list" where
  "rests Eps s = [s]"
| "rests (Lit c) s = (case s of [] \<Rightarrow> [] | x # xs \<Rightarrow> if x = c then [xs] else [])"
| "rests AnyChar s = (case s of [] \<Rightarrow> [] | x # xs \<Rightarrow> if line_terminator x then [] else [xs])"
| "rests EndOfInput s = (if s = [] then [s] else [])"
| "rests (Cat a b) s = concat (map (rests b) (rests a s))"
| "rests (Alt a b) s = rests a s @ rests b s"
| "rests (NegLookahead a) s = (if rests a s = [] then [s] else [])"
| "rests (Star a) s =
     concat (map (rests (Star a)) (filter (\<lambda>t. length t < length s) (rests a s))) @ [s]"

text \<open>A run of literal characters.\<close>

fun str :: "string \<Rightarrow> regex" where
  "str [] = Eps"
| "str (c # cs) = Cat (Lit c) (str cs)"

text \<open>The alternatives of the negative lookahead,
  \<^verbatim>\<open>api|_next/static|_next/image|favicon.ico|$\<close>; the dot of \<^verbatim>\<open>favicon.ico\<close> is not
  escaped in the source, so it is the wildcard.\<close>

definition lookahead :: regex where
  "lookahead =
     Alt (str ''api'')
    (Alt (str ''_next/static'')
    (Alt (str ''_next/image'')
    (Alt (Cat (str ''favicon'') (Cat AnyChar (str ''ico'')))
         EndOfInput)))"

definition matcher_regex :: regex where
  "matcher_regex = Cat (Lit CHR ''/'') (Cat (NegLookahead lookahead) (Star AnyChar))"

text \<open>The middleware runs on a path when the pattern matches all of it.\<close>

definition matcher :: "string \<Rightarrow> bool" where
  "matcher path = ([] \<in> set (rests matcher_regex path))"

text \<open>What \<^verbatim>\<open>favicon.ico\<close> matches at the start of a string: \<^verbatim>\<open>favicon\<close>, one
  character that is no line terminator, \<^verbatim>\<open>ico\<close>.\<close>

definition wildcard_favicon :: "string \<Rightarrow> bool" where
  "wildcard_favicon rest =
     (prefix ''favicon'' rest \<and>
      (case drop (length ''favicon'') rest of
         [] \<Rightarrow> False
       | c # t \<Rightarrow> \<not> line_terminator c \<and> prefix ''ico'' t))"

section \<open>Loading the workflow at mount\<close>

lemma mock_steps_ids: "map step_id (wf_steps mockWorkflowData) = [''step-1'', ''step-2'', ''step-3'']"
  by (simp add: mockWorkflowData_def)

lemma mock_connections:
  "map (\<lambda>c. (conn_from c, conn_to c)) (wf_connections mockWorkflowData)
     = [(''step-1'', ''step-2''), (''step-2'', ''step-3'')]"
  by (simp add: mockWorkflowData_def)

text \<open>
  Claim C1, as stated: for every defined \<^verbatim>\<open>workflowId\<close>, mounting in mode
  \<^verbatim>\<open>"edit"\<close> loads \<^verbatim>\<open>mockWorkflowData\<close>. The guard of the effect is
  \<^verbatim>\<open>mode === "edit" && workflowId\<close>, a truthiness test: the empty string is a defined
  \<^verbatim>\<open>workflowId\<close> and is falsy, so the editor keeps its empty draft.
\<close>

theorem C1_empty_workflowId_not_loaded:
  "workflow (mount Edit (Some [])) \<noteq> mockWorkflowData"
  by (simp add: mount_def useEffect_load_def initial_editor_def mockWorkflowData_def)

text \<open>
  Claim C1, amended: for every non-empty \<^verbatim>\<open>workflowId\<close>, mounting the editor in mode
  \<^verbatim>\<open>"edit"\<close> sets the workflow to the one fixed value \<^verbatim>\<open>mockWorkflowData\<close> (name
  "Web Design Onboarding", status active, the steps step-1, step-2, step-3 and the
  connections step-1 to step-2 and step-2 to step-3), whatever the identifier is; the
  effect replaces the workflow of any earlier state by the same value, and touches no other
  cell.
\<close>

theorem C1_edit_loads_mock:
  "workflowId \<noteq> [] \<Longrightarrow>
     workflow (mount Edit (Some workflowId)) = mockWorkflowData
   \<and> useEffect_load Edit (Some workflowId) s = s\<lparr>workflow := mockWorkflowData\<rparr>
   \<and> wf_name mockWorkflowData = ''Web Design Onboarding''
   \<and> wf_status mockWorkflowData = Active
   \<and> map step_id (wf_steps mockWorkflowData) = [''step-1'', ''step-2'', ''step-3'']
   \<and> map (\<lambda>c. (conn_from c, conn_to c)) (wf_connections mockWorkflowData)
        = [(''step-1'', ''step-2''), (''step-2'', ''step-3'')]"
  by (simp add: mount_def useEffect_load_def mock_steps_ids mock_connections)
     (simp add: mockWorkflowData_def)

theorem C1_edit_loads_mock_witness:
  "''42'' \<noteq> []
   \<and> workflow (mount Edit (Some ''42'')) = mockWorkflowData
   \<and> workflow (mount Edit (Some ''7'')) = workflow (mount Edit (Some ''42''))"
  using C1_edit_loads_mock [of "''42''" initial_editor]
        C1_edit_loads_mock [of "''7''" initial_editor]
  by simp

section \<open>Save Draft and Publish\<close>

lemma run_timer_frame:
  "workflow (run_timer t s) = workflow s"
  "selectedStep (run_timer t s) = selectedStep s"
  "showStepLibrary (run_timer t s) = showStepLibrary s"
  "timers (run_timer t s) = timers s"
  "isLoading (run_timer t s) = False"
  by (cases t; simp)+

lemma fire_timer_workflow: "workflow (fire_timer s) = workflow s"
  by (simp add: fire_timer_def run_timer_frame split: list.split)

lemma fire_all_workflow: "workflow (fire_all n s) = workflow s"
  by (induction n arbitrary: s) (simp_all add: fire_timer_workflow)

text \<open>
  Claim C2: \<^verbatim>\<open>handleSave\<close> leaves the workflow (name, description, status, steps,
  connections) as it was, and the selection and the library flag too; it sets
  \<^verbatim>\<open>isLoading\<close> and queues one timer, and that timer, when it runs, writes one line to
  the console and clears \<^verbatim>\<open>isLoading\<close>, again without touching the workflow. From a
  state with no pending timer, save followed by the timeout is the state one started from
  but for the console line.
\<close>

theorem C2_handleSave_frame:
  "workflow (handleSave s) = workflow s
   \<and> selectedStep (handleSave s) = selectedStep s
   \<and> showStepLibrary (handleSave s) = showStepLibrary s
   \<and> console (handleSave s) = console s
   \<and> isLoading (handleSave s)
   \<and> timers (handleSave s) = timers s @ [SaveTimer (workflow s)]
   \<and> run_timer (SaveTimer (workflow s)) (handleSave s)
       = (handleSave s)\<lparr>console := console s @ [Saving (workflow s)], isLoading := False\<rparr>
   \<and> workflow (fire_all n (handleSave s)) = workflow s
   \<and> (timers s = [] \<longrightarrow>
        fire_timer (handleSave s)
          = s\<lparr>isLoading := False, console := console s @ [Saving (workflow s)]\<rparr>)"
  by (simp add: handleSave_def fire_all_workflow fire_timer_def)

theorem C2_handleSave_frame_witness:
  "timers (mount Edit (Some ''1'')) = []
   \<and> workflow (fire_timer (handleSave (mount Edit (Some ''1'')))) = mockWorkflowData
   \<and> \<not> isLoading (fire_timer (handleSave (mount Edit (Some ''1''))))"
  using C2_handleSave_frame [of "mount Edit (Some ''1'')" 0]
  by (simp add: mount_def useEffect_load_def initial_editor_def)

text \<open>
  Claim C3: \<^verbatim>\<open>handlePublish\<close> sets the status to active and changes no other field of
  the workflow; the timer it queues changes nothing of the workflow when it runs; and
  publishing twice gives the workflow that publishing once gives.
\<close>

theorem C3_handlePublish_status_only:
  "workflow (handlePublish s) = (workflow s)\<lparr>wf_status := Active\<rparr>
   \<and> wf_status (workflow (handlePublish s)) = Active
   \<and> wf_id (workflow (handlePublish s)) = wf_id (workflow s)
   \<and> wf_name (workflow (handlePublish s)) = wf_name (workflow s)
   \<and> wf_description (workflow (handlePublish s)) = wf_description (workflow s)
   \<and> wf_steps (workflow (handlePublish s)) = wf_steps (workflow s)
   \<and> wf_connections (workflow (handlePublish s)) = wf_connections (workflow s)
   \<and> workflow (fire_all n (handlePublish s)) = workflow (handlePublish s)
   \<and> workflow (handlePublish (handlePublish s)) = workflow (handlePublish s)
   \<and> workflow (handlePublish (fire_all n (handlePublish s))) = workflow (handlePublish s)
   \<and> (wf_status (workflow s) = Active \<longrightarrow> workflow (handlePublish s) = workflow s)"
  by (simp add: handlePublish_def Let_def fire_all_workflow)

theorem C3_handlePublish_status_only_witness:
  "wf_status (workflow (mount Edit (Some ''1''))) = Active
   \<and> workflow (handlePublish (mount Edit (Some ''1''))) = mockWorkflowData
   \<and> wf_status (workflow (handlePublish initial_editor)) = Active"
  using C3_handlePublish_status_only [of "mount Edit (Some ''1'')" 0]
        C3_handlePublish_status_only [of initial_editor 0]
  by (simp add: mount_def useEffect_load_def mockWorkflowData_def)

section \<open>Dragging on the canvas\<close>

lemma canvas_run_drag:
  "canvas_run (map Drag evs) (s, d, tr) = (s, dragged_after evs d, tr)"
proof (induction evs arbitrary: d)
  case Nil
  show ?case by (simp add: canvas_run_def)
next
  case (Cons ev evs)
  have step: "canvas_dispatch (Drag ev) (s, d, tr) = (s, dragged_after [ev] d, tr)"
    by (cases ev) (simp_all add: handleDragStart_def handleDragEnd_def)
  have "canvas_run (map Drag (ev # evs)) (s, d, tr)
          = canvas_run (map Drag evs) (canvas_dispatch (Drag ev) (s, d, tr))"
    by (simp add: canvas_run_def)
  also have "\<dots> = (s, dragged_after evs (dragged_after [ev] d), tr)"
    unfolding step by (rule Cons.IH)
  also have "dragged_after evs (dragged_after [ev] d) = dragged_after (ev # evs) d"
    by (cases ev) simp_all
  finally show ?case .
qed

lemma dragged_after_end: "dragged_after (evs @ [DragEnd]) d = None"
  by (induction evs d rule: dragged_after.induct) simp_all

text \<open>
  Claim C4: for every editor state and every sequence of drag events on the canvas
  (\<^verbatim>\<open>handleDragStart\<close> and \<^verbatim>\<open>handleDragEnd\<close> in any order), no callback is invoked
  (the trace is unchanged, so neither \<^verbatim>\<open>onUpdateStep\<close> nor \<^verbatim>\<open>onDeleteStep\<close> is
  called), the editor's state, hence every step's position, is what it was, and only
  \<^verbatim>\<open>draggedStep\<close> changes; a sequence that ends with a drag end leaves it null.
\<close>

theorem C4_drag_changes_only_marker:
  "canvas_run (map Drag evs) (s, d, tr) = (s, dragged_after evs d, tr)
   \<and> snd (handleDragStart stepId d) = []
   \<and> handleDragEnd d = (None, [])
   \<and> map step_position (wf_steps (workflow (fst (canvas_run (map Drag evs) (s, d, tr)))))
       = map step_position (wf_steps (workflow s))
   \<and> fst (snd (canvas_run (map Drag (evs @ [DragEnd])) (s, d, tr))) = None"
proof -
  have "canvas_run (map Drag (evs @ [DragEnd])) (s, d, tr)
          = (s, dragged_after (evs @ [DragEnd]) d, tr)"
    by (rule canvas_run_drag)
  then have "fst (snd (canvas_run (map Drag (evs @ [DragEnd])) (s, d, tr))) = None"
    by (simp only: dragged_after_end fst_conv snd_conv)
  then show ?thesis
    by (simp add: canvas_run_drag handleDragStart_def handleDragEnd_def)
qed

theorem C4_drag_changes_only_marker_witness:
  "canvas_run [Drag (DragStart ''step-1''), Drag DragEnd, Drag (DragStart ''step-2'')]
       (mount Edit (Some ''1''), None, [])
     = (mount Edit (Some ''1''), Some ''step-2'', [])"
  using C4_drag_changes_only_marker
          [of "[DragStart ''step-1'', DragEnd, DragStart ''step-2'']"
              "mount Edit (Some ''1'')" None "[]"]
  by simp

section \<open>Deleting and adding steps\<close>

lemma deleteStep_workflow:
  "workflow (deleteStep stepId s) =
     (workflow s)
       \<lparr>wf_steps := filter (\<lambda>step. step_id step \<noteq> stepId) (wf_steps (workflow s)),
        wf_connections :=
          filter (\<lambda>conn. conn_from conn \<noteq> stepId \<and> conn_to conn \<noteq> stepId)
                 (wf_connections (workflow s))\<rparr>"
  by (simp add: deleteStep_def Let_def)

lemma deleteStep_selected:
  "selectedStep (deleteStep stepId s) =
     (if selectedStep s = Some stepId then None else selectedStep s)"
  by (simp add: deleteStep_def Let_def)

lemma deleteStep_valid:
  assumes "connections_valid (workflow s)"
  shows "connections_valid (workflow (deleteStep stepId s))"
proof -
  have "conn_from c \<in> step_id ` {st \<in> set (wf_steps (workflow s)). step_id st \<noteq> stepId}
      \<and> conn_to c \<in> step_id ` {st \<in> set (wf_steps (workflow s)). step_id st \<noteq> stepId}"
    if c: "c \<in> set (wf_connections (workflow s))"
      and ne: "conn_from c \<noteq> stepId" "conn_to c \<noteq> stepId" for c
  proof -
    from assms c have "conn_from c \<in> step_id ` set (wf_steps (workflow s))"
      and "conn_to c \<in> step_id ` set (wf_steps (workflow s))"
      by (simp_all add: connections_valid_def list_all_iff)
    with ne show ?thesis by auto
  qed
  then show ?thesis
    by (simp add: connections_valid_def list_all_iff deleteStep_workflow)
qed

lemma addStep_workflow:
  "wf_connections (workflow (addStep now t s)) = wf_connections (workflow s)"
  "butlast (wf_steps (workflow (addStep now t s))) = wf_steps (workflow s)"
  "length (wf_steps (workflow (addStep now t s))) = Suc (length (wf_steps (workflow s)))"
  by (simp_all add: addStep_def Let_def)

lemma addStep_valid:
  assumes "connections_valid (workflow s)"
  shows "connections_valid (workflow (addStep now t s))"
  using assms by (auto simp add: connections_valid_def list_all_iff addStep_def Let_def)

text \<open>
  Claim C6: in a state where every connection's \<^verbatim>\<open>from\<close> and \<^verbatim>\<open>to\<close> name the id
  of an existing step, \<^verbatim>\<open>deleteStep(stepId)\<close> keeps, in order, exactly the steps whose
  id is not \<^verbatim>\<open>stepId\<close> and exactly the connections that have \<^verbatim>\<open>stepId\<close> at neither
  end, leaves the other fields of the workflow alone, and the connections that remain
  name existing steps; \<^verbatim>\<open>addStep\<close> appends one step, adds no connection and keeps the
  invariant; and deleting the selected step sets the selection to null (another
  selection is kept).
\<close>

theorem C6_deleteStep_addStep_invariant:
  assumes "connections_valid (workflow s)"
  shows
  "wf_steps (workflow (deleteStep stepId s))
     = filter (\<lambda>step. step_id step \<noteq> stepId) (wf_steps (workflow s))
   \<and> wf_connections (workflow (deleteStep stepId s))
     = filter (\<lambda>conn. conn_from conn \<noteq> stepId \<and> conn_to conn \<noteq> stepId)
              (wf_connections (workflow s))
   \<and> stepId \<notin> set (map step_id (wf_steps (workflow (deleteStep stepId s))))
   \<and> stepId \<notin> set (map conn_from (wf_connections (workflow (deleteStep stepId s))))
   \<and> stepId \<notin> set (map conn_to (wf_connections (workflow (deleteStep stepId s))))
   \<and> wf_id (workflow (deleteStep stepId s)) = wf_id (workflow s)
   \<and> wf_name (workflow (deleteStep stepId s)) = wf_name (workflow s)
   \<and> wf_description (workflow (deleteStep stepId s)) = wf_description (workflow s)
   \<and> wf_status (workflow (deleteStep stepId s)) = wf_status (workflow s)
   \<and> connections_valid (workflow (deleteStep stepId s))
   \<and> connections_valid (workflow (addStep now stepType s))
   \<and> wf_connections (workflow (addStep now stepType s)) = wf_connections (workflow s)
   \<and> butlast (wf_steps (workflow (addStep now stepType s))) = wf_steps (workflow s)
   \<and> length (wf_steps (workflow (addStep now stepType s)))
       = Suc (length (wf_steps (workflow s)))
   \<and> selectedStep (deleteStep stepId s)
       = (if selectedStep s = Some stepId then None else selectedStep s)"
proof -
  have "stepId \<notin> set (map step_id (wf_steps (workflow (deleteStep stepId s))))"
    and "stepId \<notin> set (map conn_from (wf_connections (workflow (deleteStep stepId s))))"
    and "stepId \<notin> set (map conn_to (wf_connections (workflow (deleteStep stepId s))))"
    by (auto simp add: deleteStep_workflow)
  then show ?thesis
    using deleteStep_valid [OF assms, of stepId] addStep_valid [OF assms, of now stepType]
    by (simp add: deleteStep_workflow deleteStep_selected addStep_workflow)
qed

theorem C6_deleteStep_addStep_invariant_witness:
  "connections_valid (workflow (setSelectedStep (Some ''step-2'') (mount Edit (Some ''1''))))
   \<and> map step_id (wf_steps (workflow
        (deleteStep ''step-2'' (setSelectedStep (Some ''step-2'') (mount Edit (Some ''1''))))))
       = [''step-1'', ''step-3'']
   \<and> wf_connections (workflow
        (deleteStep ''step-2'' (setSelectedStep (Some ''step-2'') (mount Edit (Some ''1'')))))
       = []
   \<and> selectedStep
        (deleteStep ''step-2'' (setSelectedStep (Some ''step-2'') (mount Edit (Some ''1''))))
       = None"
proof -
  let ?s = "setSelectedStep (Some ''step-2'') (mount Edit (Some ''1''))"
  have w: "workflow ?s = mockWorkflowData"
    by (simp add: setSelectedStep_def mount_def useEffect_load_def)
  have sel: "selectedStep ?s = Some ''step-2''"
    by (simp add: setSelectedStep_def)
  have v: "connections_valid (workflow ?s)"
    unfolding w by (simp add: connections_valid_def mockWorkflowData_def)
  from C6_deleteStep_addStep_invariant [OF v, of "''step-2''" 0 FormStep]
  show ?thesis
    using v unfolding w sel by (simp add: mockWorkflowData_def)
qed

section \<open>Save Changes and Cancel in the configuration panel\<close>

lemma panel_close_dispatch:
  "ev \<in> {CloseX, SaveChanges, Cancel} \<Longrightarrow>
     panel_dispatch ev s = (if selectedStepData s = None then s else s\<lparr>selectedStep := None\<rparr>)"
  by (auto simp add: panel_dispatch_def setSelectedStep_def split: option.split)

lemma panel_close_workflow:
  "ev \<in> {CloseX, SaveChanges, Cancel} \<Longrightarrow> workflow (panel_dispatch ev s) = workflow s"
  by (simp add: panel_close_dispatch)

text \<open>
  Claim C7: in the panel, Save Changes and Cancel are the same operation: each invokes
  \<^verbatim>\<open>onClose\<close> once and nothing else. In the editor this sets the selection to null
  and leaves the workflow as it is, so Save Changes stores nothing, and Cancel after any
  panel event keeps the workflow that event produced (an edit already applied through
  \<^verbatim>\<open>onUpdateStep\<close> is not reverted).
\<close>

theorem C7_save_changes_is_cancel:
  "panel_handler step SaveChanges = [OnClose]
   \<and> panel_handler step Cancel = [OnClose]
   \<and> panel_dispatch SaveChanges s = panel_dispatch Cancel s
   \<and> panel_dispatch SaveChanges s
       = (if selectedStepData s = None then s else s\<lparr>selectedStep := None\<rparr>)
   \<and> workflow (panel_dispatch SaveChanges s) = workflow s
   \<and> workflow (panel_dispatch Cancel (panel_dispatch ev s)) = workflow (panel_dispatch ev s)"
  by (simp add: panel_close_dispatch panel_close_workflow)

theorem C7_save_changes_is_cancel_witness:
  "map step_name (wf_steps (workflow
      (panel_dispatch Cancel (panel_dispatch (NameChange ''Kickoff'')
         (setSelectedStep (Some ''step-1'') (mount Edit (Some ''1'')))))))
     = [''Kickoff'', ''Welcome Email'', ''Send Contract'']
   \<and> panel_dispatch SaveChanges (setSelectedStep (Some ''step-1'') (mount Edit (Some ''1'')))
     = mount Edit (Some ''1'')"
proof -
  let ?s = "setSelectedStep (Some ''step-1'') (mount Edit (Some ''1''))"
  have edit: "map step_name (wf_steps (workflow (panel_dispatch (NameChange ''Kickoff'') ?s)))
      = [''Kickoff'', ''Welcome Email'', ''Send Contract'']"
    by (simp add: panel_dispatch_def selectedStepData_def setSelectedStep_def mount_def
          useEffect_load_def initial_editor_def mockWorkflowData_def updateStepField_def
          updateStep_def spread_updates_def no_updates_def)
  have sel: "selectedStepData ?s \<noteq> None"
    by (simp add: selectedStepData_def setSelectedStep_def mount_def
          useEffect_load_def initial_editor_def mockWorkflowData_def)
  have close: "?s\<lparr>selectedStep := None\<rparr> = mount Edit (Some ''1'')"
    by (simp add: setSelectedStep_def mount_def useEffect_load_def initial_editor_def)
  note C7 = C7_save_changes_is_cancel [of "hd (wf_steps mockWorkflowData)" ?s "NameChange ''Kickoff''"]
  from C7 have "workflow (panel_dispatch Cancel (panel_dispatch (NameChange ''Kickoff'') ?s))
      = workflow (panel_dispatch (NameChange ''Kickoff'') ?s)"
    by (elim conjE)
  with edit have kept: "map step_name (wf_steps (workflow
      (panel_dispatch Cancel (panel_dispatch (NameChange ''Kickoff'') ?s))))
      = [''Kickoff'', ''Welcome Email'', ''Send Contract'']"
    by simp
  from C7 have "panel_dispatch SaveChanges ?s
      = (if selectedStepData ?s = None then ?s else ?s\<lparr>selectedStep := None\<rparr>)"
    by (elim conjE)
  also have "\<dots> = ?s\<lparr>selectedStep := None\<rparr>"
    using sel by (rule if_not_P)
  finally have "panel_dispatch SaveChanges ?s = mount Edit (Some ''1'')"
    using close by (rule trans)
  with kept show ?thesis by (rule conjI)
qed

section \<open>The form builder's initial state\<close>

text \<open>
  Claim C8: a form page starts with an empty title, an empty description and exactly
  two fields: a required text field with id "1" labelled "Full Name" and a required
  email field with id "2" labelled "Email Address". The component takes no props, so the
  initial state is a constant.
\<close>

theorem C8_FormPage_initial_state:
  "formTitle FormPage_initial = []
   \<and> formDescription FormPage_initial = []
   \<and> length (form_fields FormPage_initial) = 2
   \<and> map (\<lambda>f. (field_id f, field_type f, field_label f, field_required f))
        (form_fields FormPage_initial)
       = [(''1'', TextField, ''Full Name'', True), (''2'', EmailField, ''Email Address'', True)]
   \<and> map field_placeholder (form_fields FormPage_initial)
       = [Some ''Enter your full name'', Some ''your@email.com'']
   \<and> map field_options (form_fields FormPage_initial) = [None, None]"
  by (simp add: FormPage_initial_def)

section \<open>Options of a select field: join, then split and filter\<close>

lemma split_char_not_Nil: "split_char sep s \<noteq> []"
  by (induction s) (simp_all split: list.split)

lemma split_char_no_sep: "sep \<notin> set x \<Longrightarrow> split_char sep x = [x]"
  by (induction x) auto

lemma split_char_append:
  "sep \<notin> set x \<Longrightarrow> split_char sep (x @ sep # rest) = x # split_char sep rest"
  by (induction x) auto

lemma split_char_pieces: "p \<in> set (split_char sep s) \<Longrightarrow> sep \<notin> set p"
proof (induction s arbitrary: p)
  case Nil
  then show ?case by simp
next
  case (Cons c cs)
  show ?case
  proof (cases "c = sep")
    case True
    with Cons show ?thesis by auto
  next
    case False
    obtain q qs where q: "split_char sep cs = q # qs"
      using split_char_not_Nil [of sep cs] by (cases "split_char sep cs") auto
    with Cons.prems False have "p = c # q \<or> p \<in> set qs" by simp
    then show ?thesis
      using Cons.IH [of q] Cons.IH [of p] q False by auto
  qed
qed

lemma split_join:
  "xs \<noteq> [] \<Longrightarrow> \<forall>x \<in> set xs. sep \<notin> set x \<Longrightarrow> split_char sep (join [sep] xs) = xs"
  by (induction "[sep]" xs rule: join.induct) (simp_all add: split_char_no_sep split_char_append)

lemma round_trip_ok:
  assumes "\<forall>x \<in> set xs. x \<noteq> [] \<and> newline \<notin> set x"
  shows "parse_options (textarea_value (Some xs)) = xs"
proof (cases "xs = []")
  case True
  then show ?thesis
    by (simp add: parse_options_def textarea_value_def or_empty_def filter_Boolean_def)
next
  case False
  with assms have "split_char newline (join [newline] xs) = xs"
    by (simp add: split_join)
  moreover have "filter (\<lambda>x. x \<noteq> []) xs = xs"
    using assms by (simp add: filter_id_conv)
  ultimately show ?thesis
    by (simp add: parse_options_def textarea_value_def or_empty_def filter_Boolean_def)
qed

lemma parse_options_clean:
  "x \<in> set (parse_options v) \<Longrightarrow> x \<noteq> [] \<and> newline \<notin> set x"
  by (auto simp add: parse_options_def filter_Boolean_def dest: split_char_pieces)

lemma round_trip_iff:
  "(parse_options (textarea_value (Some xs)) = xs)
     = (\<forall>x \<in> set xs. x \<noteq> [] \<and> newline \<notin> set x)"
proof
  assume eq: "parse_options (textarea_value (Some xs)) = xs"
  show "\<forall>x \<in> set xs. x \<noteq> [] \<and> newline \<notin> set x"
  proof
    fix x assume "x \<in> set xs"
    with eq have "x \<in> set (parse_options (textarea_value (Some xs)))" by simp
    then show "x \<noteq> [] \<and> newline \<notin> set x" by (rule parse_options_clean)
  qed
next
  assume "\<forall>x \<in> set xs. x \<noteq> [] \<and> newline \<notin> set x"
  then show "parse_options (textarea_value (Some xs)) = xs" by (rule round_trip_ok)
qed

lemma options_onChange_fields:
  "form_fields (options_onChange field v st) =
     map (\<lambda>f. if field_id f = field_id field
               then spread_field f (no_field_updates\<lparr>fu_options := Some (parse_options v)\<rparr>)
               else f)
         (form_fields st)"
  by (simp add: options_onChange_def updateField_def)

lemma spread_field_options:
  "field_options (spread_field f (no_field_updates\<lparr>fu_options := Some ys\<rparr>)) = Some ys"
  by (simp add: spread_field_def no_field_updates_def)

text \<open>
  Claim C9: for every list of option strings none of which is empty (nor, as the claim
  goes on to say, contains a newline), joining with newlines and then splitting on newline
  and dropping the empty pieces gives the list back; for a list that contains an empty
  string or a string containing a newline the round trip does not give it back (so the
  round trip is the identity exactly on the lists of non-empty, newline-free strings);
  what the parse returns, and hence every options list the textarea handler stores,
  contains no empty string.
\<close>

theorem C9_options_round_trip:
  "((\<forall>x \<in> set xs. x \<noteq> [] \<and> newline \<notin> set x)
      \<longrightarrow> parse_options (textarea_value (Some xs)) = xs)
   \<and> ((\<exists>x \<in> set xs. x = [] \<or> newline \<in> set x)
      \<longrightarrow> parse_options (textarea_value (Some xs)) \<noteq> xs)
   \<and> [] \<notin> set (parse_options v)
   \<and> (\<forall>f \<in> set (form_fields (options_onChange field v st)).
        field_id f = field_id field
          \<longrightarrow> field_options f = Some (parse_options v)
              \<and> [] \<notin> set (the (field_options f)))"
proof -
  have clean: "[] \<notin> set (parse_options v)"
    using parse_options_clean [of "[]" v] by blast
  have stored: "\<forall>f \<in> set (form_fields (options_onChange field v st)).
        field_id f = field_id field
          \<longrightarrow> field_options f = Some (parse_options v)
              \<and> [] \<notin> set (the (field_options f))"
    using clean
    by (auto simp add: options_onChange_fields spread_field_options)
  show ?thesis
    using round_trip_iff [of xs] clean stored by blast
qed

theorem C9_options_round_trip_witness:
  "parse_options (textarea_value (Some [''Option 1'', ''Option 2''])) = [''Option 1'', ''Option 2'']
   \<and> parse_options (textarea_value (Some [''Option 1'', [], ''Option 2''])) \<noteq> [''Option 1'', [], ''Option 2'']
   \<and> map field_options (form_fields (options_onChange (hd (form_fields FormPage_initial)) ''x'' FormPage_initial))
       = [Some [''x''], None]"
proof -
  have a: "\<forall>x \<in> set [''Option 1'', ''Option 2'']. x \<noteq> [] \<and> newline \<notin> set x"
    by (simp add: newline_def)
  have b: "\<exists>x \<in> set [''Option 1'', [], ''Option 2'']. x = [] \<or> newline \<in> set x"
    by simp
  have c: "map field_options (form_fields (options_onChange (hd (form_fields FormPage_initial)) ''x'' FormPage_initial))
       = [Some [''x''], None]"
    by (simp add: options_onChange_fields FormPage_initial_def spread_field_def
          no_field_updates_def parse_options_def filter_Boolean_def newline_def)
  from C9_options_round_trip [of "[''Option 1'', ''Option 2'']"] a
  have "parse_options (textarea_value (Some [''Option 1'', ''Option 2''])) = [''Option 1'', ''Option 2'']"
    by blast
  moreover from C9_options_round_trip [of "[''Option 1'', [], ''Option 2'']"] b
  have "parse_options (textarea_value (Some [''Option 1'', [], ''Option 2''])) \<noteq> [''Option 1'', [], ''Option 2'']"
    by blast
  ultimately show ?thesis using c by simp
qed

section \<open>Paths the middleware runs on\<close>

lemma rests_str: "rests (str w) s = (if prefix w s then [drop (length w) s] else [])"
  by (induction w arbitrary: s) (auto split: list.splits)

lemma rests_Cat_str:
  "rests (Cat (str w) r) s = (if prefix w s then rests r (drop (length w) s) else [])"
  unfolding rests.simps(5) rests_str by simp

lemma rests_Cat_AnyChar:
  "rests (Cat AnyChar r) s =
     (case s of [] \<Rightarrow> [] | c # t \<Rightarrow> if line_terminator c then [] else rests r t)"
  by (simp split: list.split)

lemma rests_Star_AnyChar_Nil: "rests (Star AnyChar) [] = [[]]"
  by simp

lemma rests_Star_AnyChar_Cons:
  "rests (Star AnyChar) (c # cs) =
     (if line_terminator c then [c # cs] else rests (Star AnyChar) cs @ [c # cs])"
  by simp

lemma Star_AnyChar_full:
  "([] \<in> set (rests (Star AnyChar) s)) = (\<forall>c \<in> set s. \<not> line_terminator c)"
  by (induction s)
     (simp_all del: rests.simps add: rests_Star_AnyChar_Nil rests_Star_AnyChar_Cons)

lemma rests_favicon:
  "(rests (Cat (str ''favicon'') (Cat AnyChar (str ''ico''))) s = []) = (\<not> wildcard_favicon s)"
  unfolding rests_Cat_str rests_Cat_AnyChar rests_str wildcard_favicon_def
  by (cases "drop (length ''favicon'') s") simp_all

lemma rests_lookahead:
  "(rests lookahead s = []) =
     (s \<noteq> [] \<and> \<not> prefix ''api'' s \<and> \<not> prefix ''_next/static'' s
      \<and> \<not> prefix ''_next/image'' s \<and> \<not> wildcard_favicon s)"
  unfolding lookahead_def rests.simps(6) append_is_Nil_conv rests_favicon rests_str
  by auto

text \<open>
  The paths the matcher accepts: a slash, then a non-empty rest without line terminator
  that starts with none of \<^verbatim>\<open>api\<close>, \<^verbatim>\<open>_next/static\<close>, \<^verbatim>\<open>_next/image\<close> and
  with nothing that \<^verbatim>\<open>favicon.ico\<close> matches as a pattern.
\<close>

lemma matcher_iff:
  "matcher path =
     (case path of
        [] \<Rightarrow> False
      | c # rest \<Rightarrow>
          c = CHR ''/'' \<and> rest \<noteq> []
          \<and> \<not> prefix ''api'' rest \<and> \<not> prefix ''_next/static'' rest
          \<and> \<not> prefix ''_next/image'' rest \<and> \<not> wildcard_favicon rest
          \<and> (\<forall>x \<in> set rest. \<not> line_terminator x))"
proof (cases path)
  case Nil
  then show ?thesis by (simp add: matcher_def matcher_regex_def)
next
  case (Cons c rest)
  have "rests matcher_regex (c # rest) =
      (if c = CHR ''/'' \<and> rests lookahead rest = [] then rests (Star AnyChar) rest else [])"
    unfolding matcher_regex_def
    by (simp del: rests.simps add: rests.simps(2,5,7))
  then show ?thesis
    unfolding Cons matcher_def
    by (simp del: rests.simps add: rests_lookahead Star_AnyChar_full)
qed

text \<open>The paths the comment of the source lists are exempt, and an ordinary page is
  protected.\<close>

lemma matcher_listed_paths:
  "\<not> matcher ''/''"
  "\<not> matcher (''/api'' @ t)"
  "\<not> matcher (''/_next/static'' @ t)"
  "\<not> matcher (''/_next/image'' @ t)"
  "\<not> matcher ''/favicon.ico''"
  "matcher ''/dashboard/workflows''"
  by (simp_all add: matcher_iff wildcard_favicon_def line_terminator_def)

text \<open>
  Claim C5: the middleware runs on a path if and only if the path is not the root and
  what follows its first slash begins with none of \<^verbatim>\<open>api\<close>, \<^verbatim>\<open>_next/static\<close>,
  \<^verbatim>\<open>_next/image\<close>, \<^verbatim>\<open>favicon.ico\<close>. The path \<^verbatim>\<open>/faviconXico\<close> is not the root and
  begins with none of the four, and the matcher does not accept it: the dot of
  \<^verbatim>\<open>favicon.ico\<close> in the pattern matches the \<^verbatim>\<open>X\<close>.
\<close>

theorem C5_matcher_skips_faviconXico:
  "\<not> matcher ''/faviconXico''
   \<and> ''/faviconXico'' \<noteq> ''/''
   \<and> \<not> prefix ''api'' ''faviconXico''
   \<and> \<not> prefix ''_next/static'' ''faviconXico''
   \<and> \<not> prefix ''_next/image'' ''faviconXico''
   \<and> \<not> prefix ''favicon.ico'' ''faviconXico''"
  by (simp add: matcher_iff wildcard_favicon_def line_terminator_def)

end
